theory Spec2Isabelle
  imports Complex_Main
begin

section \<open>Batch building of \<open>BikeStationDistanceCalculator.calculate_distances\<close>\<close>

text \<open>
  The exceptions of the Python code that the model distinguishes. \<open>SnapshotError\<close> stands
  for whatever \<open>open\<close> or \<open>json.load\<close> raises on a progress file that cannot be read or
  decoded, \<open>RequestException\<close> for whatever \<open>requests.post\<close>, \<open>raise_for_status\<close> or
  \<open>response.json\<close> raises.
\<close>

datatype exn = ValueError | IndexError | KeyError | RequestException | SnapshotError

type_synonym window = "int \<times> int"

text \<open>
  Python's \<open>range(start, stop, step)\<close>: a zero step raises \<open>ValueError\<close>, a positive step
  counts upwards while below \<open>stop\<close>, a negative step counts downwards while above it.
\<close>

function range_up :: "int \<Rightarrow> int \<Rightarrow> int \<Rightarrow> int list" where
  "range_up i stop step =
     (if 0 < step \<and> i < stop then i # range_up (i + step) stop step else [])"
  by pat_completeness auto
termination
  by (relation "measure (\<lambda>(i, stop, step). nat (stop - i))") auto

function range_down :: "int \<Rightarrow> int \<Rightarrow> int \<Rightarrow> int list" where
  "range_down i stop step =
     (if step < 0 \<and> stop < i then i # range_down (i + step) stop step else [])"
  by pat_completeness auto
termination
  by (relation "measure (\<lambda>(i, stop, step). nat (i - stop))") auto

declare range_up.simps [simp del]
declare range_down.simps [simp del]

definition py_range :: "int \<Rightarrow> int \<Rightarrow> int \<Rightarrow> exn + int list" where
  "py_range start stop step =
     (if step = 0 then Inl ValueError
      else if 0 < step then Inr (range_up start stop step)
      else Inr (range_down start stop step))"

text \<open>
  The loop \<open>for i in range(batch_size, n_stations, batch_size)\<close> with its running
  \<open>prev\<close>, followed by the unconditional \<open>indices.append([prev, n_stations])\<close>.
\<close>

fun append_batches :: "int \<Rightarrow> int list \<Rightarrow> int \<Rightarrow> window list" where
  "append_batches prev [] n_stations = [(prev, n_stations)]"
| "append_batches prev (i # is) n_stations = (prev, i) # append_batches i is n_stations"

definition create_batches :: "int \<Rightarrow> int \<Rightarrow> exn + window list" where
  "create_batches n_stations batch_size =
     (case py_range batch_size n_stations batch_size of
        Inl e \<Rightarrow> Inl e
      | Inr is \<Rightarrow> Inr (append_batches 0 is n_stations))"


section \<open>Arrays, station data and the progress file\<close>

text \<open>
  Distances are IEEE doubles that the program only stores and copies, never computes
  with; \<open>NaN\<close> is the fill value of the module-level \<open>calculate_distances\<close>.
\<close>

datatype float64 = NaN | Num real

text \<open>
  The numpy arrays that occur: \<open>Mat rows\<close> is a two-dimensional array given by its
  rows (all of one length; \<open>Mat []\<close> has shape \<open>(0, 0)\<close>), and \<open>Empty1\<close> is
  \<open>np.array([])\<close>, the one-dimensional array of shape \<open>(0,)\<close>.
\<close>

datatype ndarray = Empty1 | Mat "float64 list list"

definition ncols :: "'a list list \<Rightarrow> nat" where
  "ncols rows = (case rows of [] \<Rightarrow> 0 | r # _ \<Rightarrow> length r)"

definition np_zeros :: "nat \<Rightarrow> ndarray" where
  "np_zeros n = Mat (replicate n (replicate n (Num 0)))"

definition np_full_nan :: "nat \<Rightarrow> ndarray" where
  "np_full_nan n = Mat (replicate n (replicate n NaN))"

text \<open>
  \<open>np.array\<close> on a list of lists of numbers (numpy 1.24 and later): rows of different
  lengths raise \<open>ValueError\<close>, the empty list gives the one-dimensional empty array.
\<close>

definition np_array :: "float64 list list \<Rightarrow> exn + ndarray" where
  "np_array rows =
     (case rows of
        [] \<Rightarrow> Inr Empty1
      | r # rs \<Rightarrow> if list_all (\<lambda>r'. length r' = length r) rs then Inr (Mat rows)
                  else Inl ValueError)"

fun tolist :: "ndarray \<Rightarrow> float64 list list" where
  "tolist Empty1 = []"
| "tolist (Mat rows) = rows"

text \<open>A slice bound \<open>b\<close> on an axis of length \<open>len\<close>, as numpy normalises it.\<close>

definition clip_index :: "nat \<Rightarrow> int \<Rightarrow> nat" where
  "clip_index len b = (if b < 0 then nat (max 0 (b + int len)) else min (nat b) len)"

definition broadcast :: "nat \<Rightarrow> 'a list \<Rightarrow> 'a list" where
  "broadcast m xs = (if length xs = m then xs else replicate m (hd xs))"

definition paste :: "nat \<Rightarrow> 'a list \<Rightarrow> 'a list \<Rightarrow> 'a list" where
  "paste lo ys xs = take lo xs @ ys @ drop (lo + length ys) xs"

text \<open>
  The assignment \<open>final_result[r0:r1, c0:c1] = results\<close>. Two indices on a
  one-dimensional array raise \<open>IndexError\<close>; a value that does not broadcast to the
  shape of the (clipped) target raises \<open>ValueError\<close> and leaves the array as it was.
\<close>

fun set_block :: "ndarray \<Rightarrow> window \<Rightarrow> window \<Rightarrow> ndarray \<Rightarrow> exn + ndarray" where
  "set_block Empty1 rw cw src = Inl IndexError"
| "set_block (Mat rows) (r0, r1) (c0, c1) src =
     (let lo_r = clip_index (length rows) r0;
          h = clip_index (length rows) r1 - lo_r;
          lo_c = clip_index (ncols rows) c0;
          w = clip_index (ncols rows) c1 - lo_c
      in case src of
           Empty1 \<Rightarrow> if w = 0 then Inr (Mat rows) else Inl ValueError
         | Mat srows \<Rightarrow>
             if (length srows = h \<or> length srows = 1) \<and> (ncols srows = w \<or> ncols srows = 1)
             then Inr (Mat (paste lo_r
                    (map2 (\<lambda>srow row. paste lo_c (broadcast w srow) row)
                       (broadcast h srows) (take h (drop lo_r rows)))
                    rows))
             else Inl ValueError)"

text \<open>A row of the station table: the columns \<open>ID\<close>, \<open>lat\<close>, \<open>lon\<close>.\<close>

record station =
  station_id :: real
  lat :: real
  lon :: real

type_synonym coords = "(real \<times> real) list"

text \<open>\<open>data[i, ...]\<close>: a negative index counts from the end, out of range raises.\<close>

definition row_at :: "'a list \<Rightarrow> int \<Rightarrow> exn + 'a" where
  "row_at data i =
     (let n = int (length data); j = (if i < 0 then i + n else i)
      in if 0 \<le> j \<and> j < n then Inr (data ! nat j) else Inl IndexError)"

fun collect :: "station list \<Rightarrow> int list \<Rightarrow> exn + coords" where
  "collect data [] = Inr []"
| "collect data (i # is) =
     (case row_at data i of
        Inl e \<Rightarrow> Inl e
      | Inr r \<Rightarrow> (case collect data is of
                   Inl e \<Rightarrow> Inl e
                 | Inr cs \<Rightarrow> Inr ((lon r, lat r) # cs)))"

definition extract_coordinates :: "station list \<Rightarrow> int \<Rightarrow> int \<Rightarrow> exn + coords" where
  "extract_coordinates data start_idx end_idx = collect data (range_up start_idx end_idx 1)"

text \<open>
  What \<open>distance_calculation_progress.json\<close> holds when a run starts: no file, a file
  that cannot be opened, a file that \<open>json.load\<close> rejects or that lacks a key, or the
  \<open>distances\<close> and \<open>processed_batches\<close> written by \<open>save_progress\<close>.
\<close>

datatype progress_file =
  NoFile | Unreadable | Malformed | Snapshot "float64 list list" "int list list"

fun batch_pair :: "int list \<Rightarrow> exn + window" where
  "batch_pair (a # b # rest) = Inr (a, b)"
| "batch_pair short = Inl IndexError"

fun batch_pairs :: "int list list \<Rightarrow> exn + window list" where
  "batch_pairs [] = Inr []"
| "batch_pairs (b # bs) =
     (case batch_pair b of
        Inl e \<Rightarrow> Inl e
      | Inr p \<Rightarrow> (case batch_pairs bs of Inl e \<Rightarrow> Inl e | Inr ps \<Rightarrow> Inr (p # ps)))"

fun load_progress :: "progress_file \<Rightarrow> exn + (ndarray option \<times> window list)" where
  "load_progress NoFile = Inr (None, [])"
| "load_progress Unreadable = Inl SnapshotError"
| "load_progress Malformed = Inl SnapshotError"
| "load_progress (Snapshot distances batches) =
     (case batch_pairs batches of
        Inl e \<Rightarrow> Inl e
      | Inr processed \<Rightarrow>
          (case np_array distances of
             Inl e \<Rightarrow> Inl e
           | Inr A \<Rightarrow> Inr (Some A, processed)))"

section \<open>The resumable \<open>calculate_distances\<close>\<close>

text \<open>
  What the run does to the outside, in order: a request sent by \<open>_make_api_request\<close>
  (with the coordinate lists), the log lines, a \<open>save_progress\<close> call (with the nested
  list and the batch list it writes) and a \<open>time.sleep(self.rate_limit)\<close>.
\<close>

datatype event =
    Request coords coords
  | LogProcessed window window
  | LogError window window
  | LogSkip window
  | Save "float64 list list" "window list"
  | Sleep

text \<open>
  The remote service: \<open>Failed\<close> when \<open>_make_api_request\<close> raises, otherwise the decoded
  body, of which only the entry \<open>distances\<close> (if there is one) is read. The service is a
  parameter \<open>net\<close>; its answer may depend on how many requests the run has sent before.
\<close>

datatype api_result = Failed | Body "float64 list list option"

record run_state =
  final_result :: ndarray
  processed_batches :: "window list"
  events :: "event list"
  calls :: nat

text \<open>The body of the \<open>try\<close> up to the assignment into \<open>final_result\<close>.\<close>

fun try_block :: "api_result \<Rightarrow> ndarray \<Rightarrow> window \<Rightarrow> window \<Rightarrow> exn + ndarray" where
  "try_block Failed A origin_idx destination_idx = Inl RequestException"
| "try_block (Body None) A origin_idx destination_idx = Inl KeyError"
| "try_block (Body (Some ds)) A origin_idx destination_idx =
     (case np_array ds of
        Inl e \<Rightarrow> Inl e
      | Inr results \<Rightarrow> set_block A origin_idx destination_idx results)"

text \<open>
  One pass of the inner loop. \<open>extract_coordinates\<close> is outside the \<open>try\<close>, so its
  exception ends the run; every exception inside the \<open>try\<close> is caught, progress is
  saved and \<open>continue\<close> skips the \<open>time.sleep\<close> at the end of the loop body. Writing the
  progress file itself is taken to succeed.
\<close>

definition dest_step ::
  "(nat \<Rightarrow> coords \<Rightarrow> coords \<Rightarrow> api_result) \<Rightarrow> station list \<Rightarrow> coords \<Rightarrow> window \<Rightarrow> window
     \<Rightarrow> run_state \<Rightarrow> (exn \<times> event list) + run_state" where
  "dest_step net data origins origin_idx destination_idx st =
     (case extract_coordinates data (fst destination_idx) (snd destination_idx) of
        Inl e \<Rightarrow> Inl (e, events st)
      | Inr destinations \<Rightarrow>
          (case try_block (net (calls st) origins destinations) (final_result st)
                  origin_idx destination_idx of
             Inr A \<Rightarrow>
               Inr (st\<lparr>final_result := A,
                       processed_batches := processed_batches st @ [origin_idx],
                       events := events st @
                         [Request origins destinations,
                          LogProcessed origin_idx destination_idx,
                          Save (tolist A) (processed_batches st @ [origin_idx]),
                          Sleep],
                       calls := Suc (calls st)\<rparr>)
           | Inl e \<Rightarrow>
               Inr (st\<lparr>events := events st @
                         [Request origins destinations,
                          LogError origin_idx destination_idx,
                          Save (tolist (final_result st)) (processed_batches st)],
                       calls := Suc (calls st)\<rparr>)))"

fun dest_loop ::
  "(nat \<Rightarrow> coords \<Rightarrow> coords \<Rightarrow> api_result) \<Rightarrow> station list \<Rightarrow> coords \<Rightarrow> window \<Rightarrow> window list
     \<Rightarrow> run_state \<Rightarrow> (exn \<times> event list) + run_state" where
  "dest_loop net data origins origin_idx [] st = Inr st"
| "dest_loop net data origins origin_idx (d # ds) st =
     (case dest_step net data origins origin_idx d st of
        Inl raised \<Rightarrow> Inl raised
      | Inr st' \<Rightarrow> dest_loop net data origins origin_idx ds st')"

definition already_processed :: "window \<Rightarrow> window list \<Rightarrow> bool" where
  "already_processed origin_idx batches =
     list_ex (\<lambda>batch. fst origin_idx = fst batch \<and> snd origin_idx = snd batch) batches"

fun origin_loop ::
  "(nat \<Rightarrow> coords \<Rightarrow> coords \<Rightarrow> api_result) \<Rightarrow> station list \<Rightarrow> window list \<Rightarrow> window list
     \<Rightarrow> run_state \<Rightarrow> (exn \<times> event list) + run_state" where
  "origin_loop net data indices [] st = Inr st"
| "origin_loop net data indices (origin_idx # rest) st =
     (if already_processed origin_idx (processed_batches st)
      then origin_loop net data indices rest (st\<lparr>events := events st @ [LogSkip origin_idx]\<rparr>)
      else case extract_coordinates data (fst origin_idx) (snd origin_idx) of
             Inl e \<Rightarrow> Inl (e, events st)
           | Inr origins \<Rightarrow>
               (case dest_loop net data origins origin_idx indices st of
                  Inl raised \<Rightarrow> Inl raised
                | Inr st' \<Rightarrow> origin_loop net data indices rest st'))"

text \<open>
  The whole method: the value it returns is \<open>final_result\<close> of the state, \<open>events\<close> is
  what it did on the way; \<open>Inl\<close> is an exception that leaves the method, together with
  the events that came before it.
\<close>

definition calculate_distances ::
  "(nat \<Rightarrow> coords \<Rightarrow> coords \<Rightarrow> api_result) \<Rightarrow> progress_file \<Rightarrow> station list \<Rightarrow> int
     \<Rightarrow> (exn \<times> event list) + run_state" where
  "calculate_distances net file data batch_size =
     (case load_progress file of
        Inl e \<Rightarrow> Inl (e, [])
      | Inr (loaded, processed) \<Rightarrow>
          (case create_batches (int (length data)) batch_size of
             Inl e \<Rightarrow> Inl (e, [])
           | Inr indices \<Rightarrow>
               origin_loop net data indices indices
                 \<lparr>final_result = (case loaded of None \<Rightarrow> np_zeros (length data) | Some A \<Rightarrow> A),
                  processed_batches = processed,
                  events = [],
                  calls = 0\<rparr>))"

text \<open>
  The progress file after some events of a run: every \<open>save_progress\<close> overwrites it
  (\<open>json.dump\<close> writes each tuple of \<open>processed_batches\<close> as a two-element list). A run
  that is killed leaves the file of the events it got through.
\<close>

fun persist :: "progress_file \<Rightarrow> event \<Rightarrow> progress_file" where
  "persist file (Save distances batches) = Snapshot distances (map (\<lambda>(a, b). [a, b]) batches)"
| "persist file other = file"

definition store_after :: "progress_file \<Rightarrow> event list \<Rightarrow> progress_file" where
  "store_after file evs = foldl persist file evs"

fun requests_of :: "event list \<Rightarrow> event list" where
  "requests_of [] = []"
| "requests_of (Request os ds # evs) = Request os ds # requests_of evs"
| "requests_of (other # evs) = requests_of evs"

text \<open>
  \<open>rate_limited pending evs\<close>: no request of \<open>evs\<close> is sent while an earlier request
  is still \<open>pending\<close>, that is, not yet followed by a \<open>Sleep\<close>.
\<close>

fun rate_limited :: "bool \<Rightarrow> event list \<Rightarrow> bool" where
  "rate_limited pending [] = True"
| "rate_limited pending (Request os ds # evs) = (\<not> pending \<and> rate_limited True evs)"
| "rate_limited pending (Sleep # evs) = rate_limited False evs"
| "rate_limited pending (other # evs) = rate_limited pending evs"

section \<open>The module-level \<open>calculate_distances\<close>\<close>

text \<open>
  The function \<open>calculate_distances(stations)\<close> of the same file: it fills the matrix
  with \<open>np.nan\<close>, walks the window starts \<open>range(0, n_stations, WINDOW_SIZE)\<close>, catches
  only \<open>requests.exceptions.RequestException\<close> and sleeps inside the \<open>try\<close>. The two
  halves of its \<open>points\<close> list are recorded as the two lists of the request.
\<close>

definition WINDOW_SIZE :: int where
  "WINDOW_SIZE = 80"

record fn_state =
  distances :: ndarray
  fn_events :: "event list"
  fn_calls :: nat

fun points :: "station list \<Rightarrow> int list \<Rightarrow> exn + coords" where
  "points stations [] = Inr []"
| "points stations (idx # rest) =
     (case row_at stations idx of
        Inl e \<Rightarrow> Inl e
      | Inr r \<Rightarrow> (case points stations rest of
                   Inl e \<Rightarrow> Inl e
                 | Inr ps \<Rightarrow> Inr ((lat r, lon r) # ps)))"

definition window_step ::
  "(nat \<Rightarrow> coords \<Rightarrow> coords \<Rightarrow> api_result) \<Rightarrow> station list \<Rightarrow> int \<Rightarrow> int \<Rightarrow> fn_state
     \<Rightarrow> exn + fn_state" where
  "window_step net stations i j st =
     (let n_stations = int (length stations);
          i_end = min (i + WINDOW_SIZE) n_stations;
          j_end = min (j + WINDOW_SIZE) n_stations
      in case points stations (range_up i i_end 1) of
           Inl e \<Rightarrow> Inl e
         | Inr from_points \<Rightarrow>
             (case points stations (range_up j j_end 1) of
                Inl e \<Rightarrow> Inl e
              | Inr to_points \<Rightarrow>
                  (case net (fn_calls st) from_points to_points of
                     Failed \<Rightarrow>
                       Inr (st\<lparr>fn_events := fn_events st @
                                 [Request from_points to_points,
                                  LogError (i, i_end) (j, j_end)],
                               fn_calls := Suc (fn_calls st)\<rparr>)
                   | Body None \<Rightarrow>
                       Inr (st\<lparr>fn_events := fn_events st @
                                 [Request from_points to_points,
                                  LogProcessed (i, i_end) (j, j_end), Sleep],
                               fn_calls := Suc (fn_calls st)\<rparr>)
                   | Body (Some ds) \<Rightarrow>
                       (case np_array ds of
                          Inl e \<Rightarrow> Inl e
                        | Inr window_distances \<Rightarrow>
                            (case set_block (distances st) (i, i_end) (j, j_end)
                                    window_distances of
                               Inl e \<Rightarrow> Inl e
                             | Inr A \<Rightarrow>
                                 Inr (st\<lparr>distances := A,
                                         fn_events := fn_events st @
                                           [Request from_points to_points,
                                            LogProcessed (i, i_end) (j, j_end), Sleep],
                                         fn_calls := Suc (fn_calls st)\<rparr>))))))"

fun inner_windows ::
  "(nat \<Rightarrow> coords \<Rightarrow> coords \<Rightarrow> api_result) \<Rightarrow> station list \<Rightarrow> int \<Rightarrow> int list \<Rightarrow> fn_state
     \<Rightarrow> exn + fn_state" where
  "inner_windows net stations i [] st = Inr st"
| "inner_windows net stations i (j # js) st =
     (case window_step net stations i j st of
        Inl e \<Rightarrow> Inl e
      | Inr st' \<Rightarrow> inner_windows net stations i js st')"

fun outer_windows ::
  "(nat \<Rightarrow> coords \<Rightarrow> coords \<Rightarrow> api_result) \<Rightarrow> station list \<Rightarrow> int list \<Rightarrow> int list \<Rightarrow> fn_state
     \<Rightarrow> exn + fn_state" where
  "outer_windows net stations starts [] st = Inr st"
| "outer_windows net stations starts (i # is) st =
     (case inner_windows net stations i starts st of
        Inl e \<Rightarrow> Inl e
      | Inr st' \<Rightarrow> outer_windows net stations starts is st')"

definition module_calculate_distances ::
  "(nat \<Rightarrow> coords \<Rightarrow> coords \<Rightarrow> api_result) \<Rightarrow> station list \<Rightarrow> exn + fn_state" where
  "module_calculate_distances net stations =
     (case py_range 0 (int (length stations)) WINDOW_SIZE of
        Inl e \<Rightarrow> Inl e
      | Inr starts \<Rightarrow>
          outer_windows net stations starts starts
            \<lparr>distances = np_full_nan (length stations), fn_events = [], fn_calls = 0\<rparr>)"

section \<open>The class without progress file\<close>

text \<open>
  The class of \<open>src/bike_station_distances.py\<close>, which has the same batch building and
  the same loops without the progress file.
\<close>

definition plain_step ::
  "(nat \<Rightarrow> coords \<Rightarrow> coords \<Rightarrow> api_result) \<Rightarrow> station list \<Rightarrow> coords \<Rightarrow> window \<Rightarrow> window
     \<Rightarrow> fn_state \<Rightarrow> exn + fn_state" where
  "plain_step net data origins origin_idx destination_idx st =
     (case extract_coordinates data (fst destination_idx) (snd destination_idx) of
        Inl e \<Rightarrow> Inl e
      | Inr destinations \<Rightarrow>
          (case try_block (net (fn_calls st) origins destinations) (distances st)
                  origin_idx destination_idx of
             Inr A \<Rightarrow>
               Inr (st\<lparr>distances := A,
                       fn_events := fn_events st @
                         [Request origins destinations,
                          LogProcessed origin_idx destination_idx,
                          Sleep],
                       fn_calls := Suc (fn_calls st)\<rparr>)
           | Inl e \<Rightarrow>
               Inr (st\<lparr>fn_events := fn_events st @
                         [Request origins destinations,
                          LogError origin_idx destination_idx],
                       fn_calls := Suc (fn_calls st)\<rparr>)))"

fun plain_dest_loop ::
  "(nat \<Rightarrow> coords \<Rightarrow> coords \<Rightarrow> api_result) \<Rightarrow> station list \<Rightarrow> coords \<Rightarrow> window \<Rightarrow> window list
     \<Rightarrow> fn_state \<Rightarrow> exn + fn_state" where
  "plain_dest_loop net data origins origin_idx [] st = Inr st"
| "plain_dest_loop net data origins origin_idx (d # ds) st =
     (case plain_step net data origins origin_idx d st of
        Inl e \<Rightarrow> Inl e
      | Inr st' \<Rightarrow> plain_dest_loop net data origins origin_idx ds st')"

fun plain_origin_loop ::
  "(nat \<Rightarrow> coords \<Rightarrow> coords \<Rightarrow> api_result) \<Rightarrow> station list \<Rightarrow> window list \<Rightarrow> window list
     \<Rightarrow> fn_state \<Rightarrow> exn + fn_state" where
  "plain_origin_loop net data indices [] st = Inr st"
| "plain_origin_loop net data indices (origin_idx # rest) st =
     (case extract_coordinates data (fst origin_idx) (snd origin_idx) of
        Inl e \<Rightarrow> Inl e
      | Inr origins \<Rightarrow>
          (case plain_dest_loop net data origins origin_idx indices st of
             Inl e \<Rightarrow> Inl e
           | Inr st' \<Rightarrow> plain_origin_loop net data indices rest st'))"

definition plain_calculate_distances ::
  "(nat \<Rightarrow> coords \<Rightarrow> coords \<Rightarrow> api_result) \<Rightarrow> station list \<Rightarrow> int \<Rightarrow> exn + fn_state" where
  "plain_calculate_distances net data batch_size =
     (case create_batches (int (length data)) batch_size of
        Inl e \<Rightarrow> Inl e
      | Inr indices \<Rightarrow>
          plain_origin_loop net data indices indices
            \<lparr>distances = np_zeros (length data), fn_events = [], fn_calls = 0\<rparr>)"

section \<open>Example inputs\<close>

text \<open>
  Three stations, a service that answers every request with a block of ones of the
  right shape, one that answers with the differences of the longitudes (zero between a
  station and itself), and a service whose request number \<open>bad\<close> fails.
\<close>

definition three_stations :: "station list" where
  "three_stations =
     [\<lparr>station_id = 1, lat = 10, lon = 20\<rparr>,
      \<lparr>station_id = 2, lat = 11, lon = 21\<rparr>,
      \<lparr>station_id = 3, lat = 12, lon = 22\<rparr>]"

definition always_ones :: "nat \<Rightarrow> coords \<Rightarrow> coords \<Rightarrow> api_result" where
  "always_ones k origins destinations =
     Body (Some (replicate (length origins) (replicate (length destinations) (Num 1))))"

definition lon_gaps :: "nat \<Rightarrow> coords \<Rightarrow> coords \<Rightarrow> api_result" where
  "lon_gaps k origins destinations =
     Body (Some (map (\<lambda>p. map (\<lambda>q. Num \<bar>fst p - fst q\<bar>) destinations) origins))"

definition failing_at ::
  "nat \<Rightarrow> (nat \<Rightarrow> coords \<Rightarrow> coords \<Rightarrow> api_result) \<Rightarrow> nat \<Rightarrow> coords \<Rightarrow> coords \<Rightarrow> api_result" where
  "failing_at bad net k origins destinations =
     (if k = bad then Failed else net k origins destinations)"

section \<open>Waiting after a successful request\<close>

text \<open>
  \<open>waits_after_success owed evs\<close>: no request of \<open>evs\<close> is sent while a wait is still
  \<open>owed\<close> for an earlier request that succeeded (one whose \<open>LogProcessed\<close> line was
  written and that has not been followed by a \<open>Sleep\<close> yet). \<open>owed_after\<close> is the flag at
  the end of \<open>evs\<close>.
\<close>

fun waits_after_success :: "bool \<Rightarrow> event list \<Rightarrow> bool" where
  "waits_after_success owed [] = True"
| "waits_after_success owed (Request os ds # evs) = (\<not> owed \<and> waits_after_success owed evs)"
| "waits_after_success owed (LogProcessed w d # evs) = waits_after_success True evs"
| "waits_after_success owed (Sleep # evs) = waits_after_success False evs"
| "waits_after_success owed (other # evs) = waits_after_success owed evs"

fun owed_after :: "bool \<Rightarrow> event list \<Rightarrow> bool" where
  "owed_after owed [] = owed"
| "owed_after owed (LogProcessed w d # evs) = owed_after True evs"
| "owed_after owed (Sleep # evs) = owed_after False evs"
| "owed_after owed (other # evs) = owed_after owed evs"

section \<open>The partition in the words of the specification\<close>

text \<open>
  \<open>ceil(n / windowSize)\<close> windows, window number \<open>k\<close> starting at \<open>k * windowSize\<close> and
  ending \<open>windowSize\<close> later, the last one cut at \<open>n\<close>. This is not taken from the code; it
  is what the batch building is compared with.
\<close>

definition window_count :: "int \<Rightarrow> int \<Rightarrow> nat" where
  "window_count n w = nat ((n + w - 1) div w)"

definition nth_window :: "int \<Rightarrow> int \<Rightarrow> nat \<Rightarrow> window" where
  "nth_window n w k = (int k * w, min (int k * w + w) n)"

definition partition_spec :: "int \<Rightarrow> int \<Rightarrow> window list" where
  "partition_spec n w = map (nth_window n w) [0..<window_count n w]"

section \<open>Notions used in the statements and proofs\<close>



definition start_state :: "progress_file \<Rightarrow> station list \<Rightarrow> exn + run_state" where
  "start_state file data =
     (case load_progress file of
        Inl e \<Rightarrow> Inl e
      | Inr (loaded, processed) \<Rightarrow>
          Inr \<lparr>final_result = (case loaded of None \<Rightarrow> np_zeros (length data) | Some A \<Rightarrow> A),
               processed_batches = processed,
               events = [],
               calls = 0\<rparr>)"

definition array_ok :: "nat \<Rightarrow> ndarray \<Rightarrow> bool" where
  "array_ok n A =
     (case A of
        Empty1 \<Rightarrow> True
      | Mat rows \<Rightarrow> list_all (\<lambda>r. length r = ncols rows) rows \<and> (rows = [] \<longrightarrow> n = 0))"

definition resumable :: "progress_file \<Rightarrow> station list \<Rightarrow> run_state \<Rightarrow> bool" where
  "resumable file data st =
     (\<exists>s. start_state file data = Inr s
        \<and> tolist (final_result s) = tolist (final_result st)
        \<and> processed_batches s = processed_batches st
        \<and> (data \<noteq> [] \<longrightarrow> final_result s = final_result st)
        \<and> (final_result s = final_result st
             \<or> final_result st = Mat [] \<and> final_result s = Empty1))"



section \<open>Properties of the batch building\<close>

lemma range_up_empty: "stop \<le> i \<Longrightarrow> range_up i stop step = []"
  by (simp add: range_up.simps)

lemma range_down_empty: "i \<le> stop \<Longrightarrow> range_down i stop step = []"
  by (simp add: range_down.simps)

lemma create_batches_zero_size: "create_batches n 0 = Inl ValueError"
  by (simp add: create_batches_def py_range_def)

lemma create_batches_negative_size:
  "batch_size < 0 \<Longrightarrow> 0 \<le> n \<Longrightarrow> create_batches n batch_size = Inr [(0, n)]"
  by (simp add: create_batches_def py_range_def range_down_empty)

lemma create_batches_no_stations:
  "0 < batch_size \<Longrightarrow> create_batches 0 batch_size = Inr [(0, 0)]"
  by (simp add: create_batches_def py_range_def range_up_empty)

lemma range_up_step:
  "0 < step \<Longrightarrow> i < stop \<Longrightarrow> range_up i stop step = i # range_up (i + step) stop step"
  by (subst range_up.simps) simp

lemma append_batches_in_range:
  "0 < w \<Longrightarrow> prev \<le> i \<Longrightarrow> prev \<le> n \<Longrightarrow> (a, b) \<in> set (append_batches prev (range_up i n w) n)
     \<Longrightarrow> prev \<le> a \<and> a \<le> b \<and> b \<le> n"
proof (induction i n w arbitrary: prev rule: range_up.induct)
  case (1 i stop step)
  show ?case
  proof (cases "i < stop")
    case True
    with "1.prems" have unfold: "range_up i stop step = i # range_up (i + step) stop step"
      by (simp add: range_up_step)
    from "1.prems"(4) unfold
    consider "(a, b) = (prev, i)"
      | "(a, b) \<in> set (append_batches i (range_up (i + step) stop step) stop)"
      by auto
    then show ?thesis
    proof cases
      case 1
      with True "1.prems" show ?thesis by simp
    next
      case 2
      have "i \<le> a \<and> a \<le> b \<and> b \<le> stop"
        using "1.IH" [of i] True "1.prems"(1) 2 by simp
      with "1.prems" show ?thesis by simp
    qed
  next
    case False
    then have "range_up i stop step = []" by (simp add: range_up_empty)
    with "1.prems" show ?thesis by simp
  qed
qed

lemma create_batches_in_range:
  assumes "create_batches (int n) batch_size = Inr indices" and "(a, b) \<in> set indices"
  shows "0 \<le> a \<and> a \<le> b \<and> b \<le> int n"
proof -
  consider "batch_size = 0" | "0 < batch_size" | "batch_size < 0" by linarith
  then show ?thesis
  proof cases
    case 1
    with assms show ?thesis by (simp add: create_batches_zero_size)
  next
    case 2
    with assms have "(a, b) \<in> set (append_batches 0 (range_up batch_size (int n) batch_size) (int n))"
      by (auto simp: create_batches_def py_range_def)
    with 2 show ?thesis
      using append_batches_in_range [of batch_size 0 batch_size "int n" a b] by simp
  next
    case 3
    with assms show ?thesis by (auto simp: create_batches_negative_size)
  qed
qed

lemma collect_in_range:
  "0 \<le> a \<Longrightarrow> b \<le> int (length data) \<Longrightarrow> \<exists>cs. collect data (range_up a b 1) = Inr cs \<and> length cs = nat (b - a)"
proof (induction a b "1::int" rule: range_up.induct)
  case (1 i stop)
  show ?case
  proof (cases "i < stop")
    case True
    then have unfold: "range_up i stop 1 = i # range_up (i + 1) stop 1"
      by (simp add: range_up_step)
    from True "1.prems" have row: "row_at data i = Inr (data ! nat i)"
      by (simp add: row_at_def)
    from "1.hyps" True "1.prems" obtain cs where
      "collect data (range_up (i + 1) stop 1) = Inr cs" "length cs = nat (stop - (i + 1))"
      by auto
    with unfold row True show ?thesis by (simp add: nat_diff_distrib)
  next
    case False
    then show ?thesis by (simp add: range_up_empty)
  qed
qed

lemma extract_coordinates_in_range:
  "0 \<le> a \<Longrightarrow> b \<le> int (length data) \<Longrightarrow> \<exists>cs. extract_coordinates data a b = Inr cs \<and> length cs = nat (b - a)"
  by (simp add: extract_coordinates_def collect_in_range)

subsection \<open>With at least one station the batches are the specified partition\<close>

lemma ceil_div_less_iff:
  fixes w n j :: int
  assumes "0 < w"
  shows "j < (n + w - 1) div w \<longleftrightarrow> j * w < n"
proof -
  define q where "q = (n + w - 1) div w"
  define r where "r = (n + w - 1) mod w"
  have eq: "n + w - 1 = q * w + r" by (simp add: q_def r_def)
  have r: "0 \<le> r" "r < w" using assms by (simp_all add: r_def)
  have "j < q \<longleftrightarrow> j * w < n"
  proof
    assume "j < q"
    then have "j + 1 \<le> q" by simp
    then have "(j + 1) * w \<le> q * w" using assms by (simp only: mult_right_mono less_imp_le)
    then have "j * w + w \<le> q * w" by (simp add: algebra_simps)
    with eq r show "j * w < n" by linarith
  next
    assume lt: "j * w < n"
    show "j < q"
    proof (rule ccontr)
      assume "\<not> j < q"
      then have "q \<le> j" by simp
      then have "q * w \<le> j * w" using assms by (simp only: mult_right_mono less_imp_le)
      with eq r lt show False by linarith
    qed
  qed
  then show ?thesis by (simp add: q_def)
qed

lemma window_count_less_iff:
  "0 < w \<Longrightarrow> j < window_count n w \<longleftrightarrow> int j * w < n"
  by (simp add: window_count_def zless_nat_eq_int_zless ceil_div_less_iff)

lemma append_batches_spec:
  assumes "0 < w"
  shows "window_count n w - j = d \<Longrightarrow> int j * w < n
           \<Longrightarrow> append_batches (int j * w) (range_up (int j * w + w) n w) n
               = map (nth_window n w) [j..<window_count n w]"
proof (induction d arbitrary: j)
  case 0
  with assms show ?case by (simp add: window_count_less_iff [symmetric])
next
  case (Suc d)
  from Suc.prems(2) assms have j: "j < window_count n w"
    by (simp add: window_count_less_iff)
  show ?case
  proof (cases "int j * w + w < n")
    case True
    have next_lt: "int (Suc j) * w < n" using True by (simp add: algebra_simps)
    have "window_count n w - Suc j = d" using Suc.prems(1) by simp
    from Suc.IH [OF this next_lt]
    have "append_batches (int j * w + w) (range_up (int j * w + w + w) n w) n
            = map (nth_window n w) [Suc j..<window_count n w]"
      by (simp add: algebra_simps)
    moreover have "range_up (int j * w + w) n w = (int j * w + w) # range_up (int j * w + w + w) n w"
      using assms True by (rule range_up_step)
    moreover have "nth_window n w j = (int j * w, int j * w + w)"
      using True by (simp add: nth_window_def)
    ultimately show ?thesis using j by (simp add: upt_conv_Cons)
  next
    case False
    then have "\<not> int (Suc j) * w < n" by (simp add: algebra_simps)
    with assms have "\<not> Suc j < window_count n w" by (simp add: window_count_less_iff)
    with j have m: "window_count n w = Suc j" by simp
    from False have "range_up (int j * w + w) n w = []" by (simp add: range_up_empty)
    moreover have "nth_window n w j = (int j * w, n)"
      using False by (simp add: nth_window_def)
    ultimately show ?thesis using m by simp
  qed
qed

lemma create_batches_positive:
  assumes "0 < n" and "0 < w"
  shows "create_batches n w = Inr (partition_spec n w)"
proof -
  have "append_batches (int 0 * w) (range_up (int 0 * w + w) n w) n
          = map (nth_window n w) [0..<window_count n w]"
    using assms by (intro append_batches_spec [OF assms(2) refl]) simp
  with assms(2) show ?thesis
    by (simp add: create_batches_def py_range_def partition_spec_def)
qed

lemma partition_spec_length: "length (partition_spec n w) = window_count n w"
  by (simp add: partition_spec_def)

lemma partition_spec_nth:
  "k < window_count n w \<Longrightarrow> partition_spec n w ! k = (int k * w, min (int k * w + w) n)"
  by (simp add: partition_spec_def nth_window_def)

lemma partition_spec_window:
  assumes "0 < w" and "k < window_count n w"
  shows "fst (partition_spec n w ! k) < snd (partition_spec n w ! k)"
    and "Suc k < window_count n w \<Longrightarrow> snd (partition_spec n w ! k) = fst (partition_spec n w ! Suc k)"
    and "Suc k < window_count n w \<Longrightarrow> snd (partition_spec n w ! k) - fst (partition_spec n w ! k) = w"
    and "Suc k = window_count n w \<Longrightarrow> snd (partition_spec n w ! k) = n"
proof -
  from assms have lt: "int k * w < n" by (simp add: window_count_less_iff)
  with assms show "fst (partition_spec n w ! k) < snd (partition_spec n w ! k)"
    by (simp add: partition_spec_nth)
  {
    assume s: "Suc k < window_count n w"
    with assms(1) have "int (Suc k) * w < n" by (simp add: window_count_less_iff)
    then have le: "int k * w + w < n" by (simp add: algebra_simps)
    with assms s show "snd (partition_spec n w ! k) = fst (partition_spec n w ! Suc k)"
      by (simp add: partition_spec_nth algebra_simps)
    from le assms show "snd (partition_spec n w ! k) - fst (partition_spec n w ! k) = w"
      by (simp add: partition_spec_nth)
  }
  {
    assume s: "Suc k = window_count n w"
    then have "\<not> Suc k < window_count n w" by simp
    with assms(1) have "\<not> int (Suc k) * w < n" by (simp add: window_count_less_iff)
    then have "n \<le> int k * w + w" by (simp add: algebra_simps)
    with assms show "snd (partition_spec n w ! k) = n"
      by (simp add: partition_spec_nth)
  }
qed

section \<open>Properties of the loops\<close>



lemma requests_of_append: "requests_of (xs @ ys) = requests_of xs @ requests_of ys"
  by (induction xs rule: requests_of.induct) simp_all


lemma store_after_append: "store_after disk (xs @ ys) = store_after (store_after disk xs) ys"
  by (simp add: store_after_def)

lemma store_after_skips: "store_after disk (map LogSkip ws) = disk"
  by (induction ws) (simp_all add: store_after_def)




subsection \<open>One pass of the inner loop\<close>


lemma dest_step_total:
  assumes "0 \<le> fst d" and "snd d \<le> int (length data)"
  shows "\<exists>st'. dest_step net data origins w d st = Inr st'"
proof -
  from assms obtain cs where "extract_coordinates data (fst d) (snd d) = Inr cs"
    using extract_coordinates_in_range by blast
  then show ?thesis
    by (simp add: dest_step_def split: sum.splits)
qed


lemma dest_loop_total:
  assumes "\<forall>d \<in> set ds. 0 \<le> fst d \<and> snd d \<le> int (length data)"
  shows "\<exists>st'. dest_loop net data origins w ds st = Inr st'"
  using assms
proof (induction ds arbitrary: st)
  case Nil
  then show ?case by simp
next
  case (Cons d ds)
  then obtain st1 where "dest_step net data origins w d st = Inr st1"
    using dest_step_total [of d data net origins w st] by auto
  with Cons show ?case by simp
qed


subsection \<open>Skipped origin batches\<close>


subsection \<open>Shape of the matrix\<close>









lemma np_array_ok:
  assumes "np_array d = Inr A"
  shows "array_ok n A \<and> tolist A = d"
  using assms
  by (cases d) (auto simp: np_array_def array_ok_def ncols_def split: if_splits)


lemma np_zeros_ok: "array_ok n (np_zeros n)"
  by (cases n) (simp_all add: array_ok_def np_zeros_def ncols_def list_all_iff)

subsection \<open>What the progress file holds during a run\<close>

lemma calculate_distances_start:
  "calculate_distances net disk data batch_size =
     (case start_state disk data of
        Inl e \<Rightarrow> Inl (e, [])
      | Inr st0 \<Rightarrow>
          (case create_batches (int (length data)) batch_size of
             Inl e \<Rightarrow> Inl (e, [])
           | Inr indices \<Rightarrow> origin_loop net data indices indices st0))"
  by (simp add: calculate_distances_def start_state_def split: sum.splits prod.splits)

lemma start_state_ok:
  assumes "start_state disk data = Inr st0"
  shows "array_ok (length data) (final_result st0) \<and> events st0 = []"
proof -
  from assms obtain loaded processed where
    l: "load_progress disk = Inr (loaded, processed)" and
    f: "final_result st0 = (case loaded of None \<Rightarrow> np_zeros (length data) | Some A \<Rightarrow> A)" and
    e: "events st0 = []"
    by (auto simp: start_state_def split: sum.splits prod.splits)
  have "array_ok (length data) (final_result st0)"
  proof (cases loaded)
    case None
    with f show ?thesis by (simp add: np_zeros_ok)
  next
    case (Some A)
    with l obtain d bs where "disk = Snapshot d bs" and "np_array d = Inr A"
      by (cases disk) (auto split: sum.splits)
    with f Some show ?thesis by (simp add: np_array_ok)
  qed
  with e show ?thesis by simp
qed






lemma resumable_cong:
  "final_result st' = final_result st \<Longrightarrow> processed_batches st' = processed_batches st
     \<Longrightarrow> resumable disk data st' = resumable disk data st"
  by (simp add: resumable_def)





subsection \<open>The run always returns\<close>

lemma origin_loop_total:
  assumes "\<forall>w \<in> set indices. 0 \<le> fst w \<and> snd w \<le> int (length data)"
    and "\<forall>w \<in> set ws. 0 \<le> fst w \<and> snd w \<le> int (length data)"
  shows "\<exists>st'. origin_loop net data indices ws st = Inr st'"
  using assms(2)
proof (induction ws arbitrary: st)
  case Nil
  then show ?case by simp
next
  case (Cons w ws)
  then obtain origins where "extract_coordinates data (fst w) (snd w) = Inr origins"
    using extract_coordinates_in_range [of "fst w" "snd w" data] by auto
  moreover obtain st1 where "dest_loop net data origins w indices st = Inr st1"
    using dest_loop_total [OF assms(1)] by blast
  ultimately show ?case using Cons by simp
qed

lemma calculate_distances_total:
  assumes "load_progress disk = Inr x" and "batch_size \<noteq> 0"
  shows "\<exists>st. calculate_distances net disk data batch_size = Inr st"
proof -
  from assms(2) obtain indices where ix: "create_batches (int (length data)) batch_size = Inr indices"
    by (cases "0 < batch_size") (simp_all add: create_batches_def py_range_def)
  have "\<forall>w \<in> set indices. 0 \<le> fst w \<and> snd w \<le> int (length data)"
    using create_batches_in_range [OF ix] by auto
  from origin_loop_total [OF this this] assms(1) ix show ?thesis
    by (cases x) (simp add: calculate_distances_def)
qed

subsection \<open>A wait follows every request that succeeded\<close>

lemma waits_after_success_append:
  "waits_after_success owed (xs @ ys) =
     (waits_after_success owed xs \<and> waits_after_success (owed_after owed xs) ys)"
  by (induction owed xs rule: waits_after_success.induct) simp_all

lemma owed_after_append: "owed_after owed (xs @ ys) = owed_after (owed_after owed xs) ys"
  by (induction owed xs rule: owed_after.induct) simp_all

lemma dest_step_waits:
  assumes "dest_step net data origins w d st = Inr st'"
    and "waits_after_success False (events st)" and "\<not> owed_after False (events st)"
  shows "waits_after_success False (events st') \<and> \<not> owed_after False (events st')"
  using assms
  by (auto simp: dest_step_def waits_after_success_append owed_after_append split: sum.splits)

lemma dest_loop_waits:
  assumes "dest_loop net data origins w ds st = Inr st'"
    and "waits_after_success False (events st)" and "\<not> owed_after False (events st)"
  shows "waits_after_success False (events st') \<and> \<not> owed_after False (events st')"
  using assms
proof (induction ds arbitrary: st)
  case Nil
  then show ?case by simp
next
  case (Cons d ds)
  from Cons.prems(1) obtain st1 where
    step: "dest_step net data origins w d st = Inr st1" and
    rest: "dest_loop net data origins w ds st1 = Inr st'"
    by (auto split: sum.splits)
  from dest_step_waits [OF step Cons.prems(2,3)] Cons.IH [OF rest] show ?case by simp
qed

lemma origin_loop_waits:
  assumes "origin_loop net data indices ws st = Inr st'"
    and "waits_after_success False (events st)" and "\<not> owed_after False (events st)"
  shows "waits_after_success False (events st') \<and> \<not> owed_after False (events st')"
  using assms
proof (induction ws arbitrary: st)
  case Nil
  then show ?case by simp
next
  case (Cons w ws)
  show ?case
  proof (cases "already_processed w (processed_batches st)")
    case True
    let ?st1 = "st\<lparr>events := events st @ [LogSkip w]\<rparr>"
    from True Cons.prems(1) have rest: "origin_loop net data indices ws ?st1 = Inr st'"
      by simp
    from Cons.prems(2,3) have "waits_after_success False (events ?st1)"
      and "\<not> owed_after False (events ?st1)"
      by (simp_all add: waits_after_success_append owed_after_append)
    with Cons.IH [OF rest] show ?thesis by simp
  next
    case False
    with Cons.prems(1) obtain origins st1 where
      inner: "dest_loop net data origins w indices st = Inr st1" and
      rest: "origin_loop net data indices ws st1 = Inr st'"
      by (auto split: sum.splits)
    from dest_loop_waits [OF inner Cons.prems(2,3)] Cons.IH [OF rest] show ?thesis by simp
  qed
qed

lemma wait_follows_every_success:
  assumes "calculate_distances net disk data batch_size = Inr st"
  shows "waits_after_success False (events st)"
proof -
  from assms obtain st0 indices where
    s0: "start_state disk data = Inr st0" and
    run: "origin_loop net data indices indices st0 = Inr st"
    by (auto simp: calculate_distances_start split: sum.splits)
  from start_state_ok [OF s0] have "events st0 = []" by simp
  with origin_loop_waits [OF run] show ?thesis by simp
qed

subsection \<open>What \<open>load_progress\<close> makes of a decoded file\<close>




subsection \<open>A single batch of all stations\<close>

lemma collect_from:
  "length data - k = m \<Longrightarrow> k \<le> length data
     \<Longrightarrow> collect data (range_up (int k) (int (length data)) 1)
         = Inr (map (\<lambda>r. (lon r, lat r)) (drop k data))"
proof (induction m arbitrary: k)
  case 0
  then show ?case by (simp add: range_up_empty)
next
  case (Suc m)
  then have lt: "k < length data" by simp
  then have unfold: "range_up (int k) (int (length data)) 1
                       = int k # range_up (int (Suc k)) (int (length data)) 1"
    by (simp add: range_up_step add.commute)
  from lt have row: "row_at data (int k) = Inr (data ! k)"
    by (simp add: row_at_def)
  from Suc.prems lt have "collect data (range_up (int (Suc k)) (int (length data)) 1)
                            = Inr (map (\<lambda>r. (lon r, lat r)) (drop (Suc k) data))"
    by (intro Suc.IH) simp_all
  with unfold row lt show ?case
    by (simp add: Cons_nth_drop_Suc [symmetric])
qed

lemma extract_coordinates_all:
  "extract_coordinates data 0 (int (length data)) = Inr (map (\<lambda>r. (lon r, lat r)) data)"
  using collect_from [of data 0 "length data"] by (simp add: extract_coordinates_def)

lemma dest_step_requests:
  assumes "extract_coordinates data (fst d) (snd d) = Inr destinations"
  shows "\<exists>st'. dest_step net data origins w d st = Inr st'
           \<and> requests_of (events st') = requests_of (events st) @ [Request origins destinations]"
  using assms by (simp add: dest_step_def requests_of_append split: sum.splits)

lemma single_window_run:
  fixes data :: "station list"
  defines "everyone \<equiv> map (\<lambda>r. (lon r, lat r)) data"
  assumes "events st = []"
  shows "\<exists>st'. origin_loop net data [(0, int (length data))] [(0, int (length data))] st = Inr st'
           \<and> requests_of (events st') =
               (if already_processed (0, int (length data)) (processed_batches st) then []
                else [Request everyone everyone])"
proof (cases "already_processed (0, int (length data)) (processed_batches st)")
  case True
  with assms(2) show ?thesis by simp
next
  case False
  have ex: "extract_coordinates data (fst (0, int (length data))) (snd (0, int (length data)))
              = Inr everyone"
    by (simp add: extract_coordinates_all everyone_def)
  from dest_step_requests [OF ex, of net everyone "(0, int (length data))" st] obtain st' where
    "dest_step net data everyone (0, int (length data)) (0, int (length data)) st = Inr st'"
    "requests_of (events st') = requests_of (events st) @ [Request everyone everyone]"
    by blast
  with False ex assms(2) show ?thesis by simp
qed

subsection \<open>Which requests of the inner loop succeed\<close>






section \<open>The claims\<close>

lemmas run_simps =
  calculate_distances_def create_batches_def py_range_def range_up.simps
  already_processed_def extract_coordinates_def row_at_def dest_step_def np_array_def
  np_zeros_def clip_index_def ncols_def broadcast_def paste_def

lemmas plain_simps =
  plain_calculate_distances_def create_batches_def py_range_def range_up.simps
  extract_coordinates_def row_at_def plain_step_def np_array_def
  np_zeros_def clip_index_def ncols_def broadcast_def paste_def

subsection \<open>When an origin batch enters the saved list\<close>

text \<open>
  C1 says that an origin window enters the persisted list only after all its destination
  windows have been processed, and that every save inside the destination loop writes
  the list without it. The code appends the origin batch inside the \<open>try\<close>, right after
  the assignment. On three stations with batch size 2 and a service that always answers,
  the first \<open>save_progress\<close>, made after the request for \<open>(0,2)\<close> to \<open>(0,2)\<close> and before the
  request for \<open>(0,2)\<close> to \<open>(2,3)\<close> is sent, already writes the list \<open>[(0,2)]\<close>.
\<close>

theorem C1_origin_saved_before_its_destinations_are_done:
  "map_sum id (\<lambda>st. take 5 (events st))
     (calculate_distances always_ones NoFile three_stations 2)
   = Inr [Request [(20, 10), (21, 11)] [(20, 10), (21, 11)],
          LogProcessed (0, 2) (0, 2),
          Save [[Num 1, Num 1, Num 0], [Num 1, Num 1, Num 0], [Num 0, Num 0, Num 0]] [(0, 2)],
          Sleep,
          Request [(20, 10), (21, 11)] [(22, 12)]]"
  by (simp add: run_simps three_stations_def always_ones_def)



subsection \<open>Resuming\<close>

text \<open>
  C2 says that a run resumed after an interruption inside the second origin window
  processes that window again from its first destination window and ends with the
  matrix of an uninterrupted run. Three stations, batch size 2, a service that always
  answers with ones: the uninterrupted run returns the matrix of ones. Killed after its
  eleventh event (the third save, after the request for \<open>(2,3)\<close> to \<open>(0,2)\<close>), the run
  leaves a file that already lists \<open>(2,3)\<close>; the run started from that file skips both
  origin batches, sends no request and returns the matrix with the entry of
  \<open>(2,3)\<close> to \<open>(2,3)\<close> still zero.
\<close>

theorem C2_resumed_run_skips_unfinished_origin:
  "map_sum id final_result (calculate_distances always_ones NoFile three_stations 2)
     = Inr (Mat [[Num 1, Num 1, Num 1], [Num 1, Num 1, Num 1], [Num 1, Num 1, Num 1]])
   \<and> map_sum id (\<lambda>st. store_after NoFile (take 11 (events st)))
       (calculate_distances always_ones NoFile three_stations 2)
     = Inr (Snapshot [[Num 1, Num 1, Num 1], [Num 1, Num 1, Num 1], [Num 1, Num 1, Num 0]]
              [[0, 2], [0, 2], [2, 3]])
   \<and> map_sum id (\<lambda>st. (final_result st, requests_of (events st)))
       (calculate_distances always_ones
          (Snapshot [[Num 1, Num 1, Num 1], [Num 1, Num 1, Num 1], [Num 1, Num 1, Num 0]]
              [[0, 2], [0, 2], [2, 3]]) three_stations 2)
     = Inr (Mat [[Num 1, Num 1, Num 1], [Num 1, Num 1, Num 1], [Num 1, Num 1, Num 0]], [])"
  by (simp add: run_simps three_stations_def always_ones_def store_after_def)




subsection \<open>The wait between requests\<close>

text \<open>
  C3 says that the rate-limit wait follows every request, failed or not, so that a wait
  lies between any two requests. In the code the \<open>except\<close> branch ends with \<open>continue\<close>,
  which skips the \<open>time.sleep\<close> at the end of the loop body. Three stations, batch size 2,
  a service whose first request fails: the second request follows the first with a log
  line and a save in between and no \<open>Sleep\<close>, so the events of the run are not
  \<open>rate_limited\<close>.
\<close>

theorem C3_no_wait_after_failed_request:
  "map_sum id (\<lambda>st. (take 4 (events st), rate_limited False (events st)))
     (calculate_distances (failing_at 0 always_ones) NoFile three_stations 2)
   = Inr ([Request [(20, 10), (21, 11)] [(20, 10), (21, 11)],
           LogError (0, 2) (0, 2),
           Save [[Num 0, Num 0, Num 0], [Num 0, Num 0, Num 0], [Num 0, Num 0, Num 0]] [],
           Request [(20, 10), (21, 11)] [(22, 12)]],
          False)"
  by (simp add: run_simps three_stations_def always_ones_def failing_at_def)

text \<open>
  What does hold, for every run that returns (lemma \<open>wait_follows_every_success\<close>): no
  request is sent after a request that succeeded before the wait has been made. The class of
  \<open>src/bike_station_distances.py\<close> skips the wait after a failed request in the same way.
\<close>

lemma plain_no_wait_after_failed_request:
  "map_sum id (\<lambda>st. take 3 (fn_events st))
     (plain_calculate_distances (failing_at 0 always_ones) three_stations 2)
   = Inr [Request [(20, 10), (21, 11)] [(20, 10), (21, 11)],
          LogError (0, 2) (0, 2),
          Request [(20, 10), (21, 11)] [(22, 12)]]"
  by (simp add: plain_simps three_stations_def always_ones_def failing_at_def)

subsection \<open>The progress file at the start\<close>




subsection \<open>No stations\<close>

text \<open>
  C6 says that for every station count \<open>n \<ge> 0\<close> and window size above zero the batches are
  \<open>ceil(n / windowSize)\<close> many and none is empty at the end. With no stations the loop over
  \<open>range\<close> adds nothing and the final \<open>indices.append([prev, n_stations])\<close> adds the empty
  batch \<open>[0, 0]\<close>: one batch where the claim has none. (With at least one station the
  batches are the partition the claim describes, see \<open>create_batches_positive\<close>.)
\<close>

theorem C6_no_stations_one_empty_batch:
  "create_batches 0 80 = Inr [(0, 0)]"
  by (simp add: create_batches_def py_range_def range_up.simps)

lemma try_block_no_stations:
  "try_block r (Mat []) (0, 0) (0, 0) = Inr A \<Longrightarrow> A = Mat []"
proof (cases r)
  case Failed
  then show "try_block r (Mat []) (0, 0) (0, 0) = Inr A \<Longrightarrow> A = Mat []" by simp
next
  case (Body b)
  then show "try_block r (Mat []) (0, 0) (0, 0) = Inr A \<Longrightarrow> A = Mat []"
    by (cases b)
       (auto simp: np_array_def clip_index_def ncols_def paste_def broadcast_def
             split: list.splits if_splits ndarray.splits)
qed

text \<open>
  C5 says that with no stations no request is sent. The empty batch of the batch
  building is paired with itself: whatever the service does, the run without stations
  and without progress file sends one request, with two empty coordinate lists, and
  returns the empty matrix.
\<close>

theorem C5_no_stations_one_request:
  "map_sum id (\<lambda>st. (final_result st, requests_of (events st)))
     (calculate_distances net NoFile [] 80) = Inr (Mat [], [Request [] []])"
  by (auto simp: calculate_distances_def create_batches_def py_range_def range_up.simps
        already_processed_def extract_coordinates_def dest_step_def np_zeros_def
      split: sum.splits dest: try_block_no_stations)

text \<open>The module-level function of the same file sends nothing when there are no stations.\<close>

lemma module_no_stations_no_request:
  "module_calculate_distances net [] =
     Inr \<lparr>distances = Mat [], fn_events = [], fn_calls = 0\<rparr>"
  by (simp add: module_calculate_distances_def py_range_def WINDOW_SIZE_def range_up.simps
        np_full_nan_def)

text \<open>The class of \<open>src/bike_station_distances.py\<close> sends the same single request.\<close>

lemma plain_no_stations_one_request:
  "map_sum id (\<lambda>st. (distances st, requests_of (fn_events st)))
     (plain_calculate_distances net [] 80) = Inr (Mat [], [Request [] []])"
  by (auto simp: plain_calculate_distances_def create_batches_def py_range_def range_up.simps
        extract_coordinates_def plain_step_def np_zeros_def
      split: sum.splits dest: try_block_no_stations)

subsection \<open>Batch sizes that are not positive\<close>

text \<open>
  C8 says that the batch building fails whenever the window size is zero or negative.
  A negative batch size is accepted: \<open>range\<close> with a negative step from \<open>-1\<close> down to \<open>3\<close> is
  empty, the only batch is \<open>[0, 3]\<close>, and the run sends a request for all three stations.
\<close>

theorem C8_negative_batch_size_accepted:
  "create_batches 3 (- 1) = Inr [(0, 3)]
   \<and> map_sum id (\<lambda>st. requests_of (events st))
       (calculate_distances always_ones NoFile three_stations (- 1))
     = Inr [Request [(20, 10), (21, 11), (22, 12)] [(20, 10), (21, 11), (22, 12)]]"
  by (simp add: run_simps range_down.simps three_stations_def always_ones_def)

text \<open>
  C8 as the code has it. Batch size zero makes \<open>range\<close> raise \<open>ValueError\<close>, and the run
  ends with it (or with the exception of \<open>load_progress\<close>, which comes first) with no
  event before it: nothing has been sent or saved. A negative batch size raises nothing
  and gives the single batch of all stations; if \<open>load_progress\<close> raises, the run ends
  with that exception, and otherwise it returns, having sent exactly one request, from
  all stations to all stations, or none if the loaded batch list already contains that
  batch. The station count is the length of the table and cannot be negative.
\<close>

theorem C8_batch_size_outcomes:
  "create_batches (int (length data)) 0 = Inl ValueError
   \<and> calculate_distances net disk data 0 =
       (case load_progress disk of
          Inl e \<Rightarrow> Inl (e, [])
        | Inr progress \<Rightarrow> Inl (ValueError, []))
   \<and> (batch_size < 0 \<longrightarrow>
        create_batches (int (length data)) batch_size = Inr [(0, int (length data))]
        \<and> (\<forall>e. load_progress disk = Inl e \<longrightarrow>
              calculate_distances net disk data batch_size = Inl (e, []))
        \<and> (\<forall>loaded processed. load_progress disk = Inr (loaded, processed) \<longrightarrow>
              (\<exists>st. calculate_distances net disk data batch_size = Inr st
                 \<and> requests_of (events st) =
                     (if already_processed (0, int (length data)) processed then []
                      else [Request (map (\<lambda>r. (lon r, lat r)) data)
                              (map (\<lambda>r. (lon r, lat r)) data)]))))"
proof (intro conjI impI allI)
  show "create_batches (int (length data)) 0 = Inl ValueError"
    by (rule create_batches_zero_size)
  show "calculate_distances net disk data 0 =
       (case load_progress disk of
          Inl e \<Rightarrow> Inl (e, [])
        | Inr progress \<Rightarrow> Inl (ValueError, []))"
    by (simp add: calculate_distances_def create_batches_zero_size split: sum.splits prod.splits)
next
  assume neg: "batch_size < 0"
  then show ix: "create_batches (int (length data)) batch_size = Inr [(0, int (length data))]"
    by (simp add: create_batches_negative_size)
  {
    fix e assume "load_progress disk = Inl e"
    then show "calculate_distances net disk data batch_size = Inl (e, [])"
      by (simp add: calculate_distances_def)
  }
  {
    fix loaded processed
    assume l: "load_progress disk = Inr (loaded, processed)"
    let ?st0 = "\<lparr>final_result = (case loaded of None \<Rightarrow> np_zeros (length data) | Some A \<Rightarrow> A),
                 processed_batches = processed, events = [], calls = 0\<rparr>"
    from l ix have "calculate_distances net disk data batch_size =
        origin_loop net data [(0, int (length data))] [(0, int (length data))] ?st0"
      by (simp add: calculate_distances_def)
    with single_window_run [of ?st0 net data]
    show "\<exists>st. calculate_distances net disk data batch_size = Inr st
                 \<and> requests_of (events st) =
                     (if already_processed (0, int (length data)) processed then []
                      else [Request (map (\<lambda>r. (lon r, lat r)) data)
                              (map (\<lambda>r. (lon r, lat r)) data)])"
      by simp
  }
qed

theorem C8_batch_size_outcomes_witness:
  "(- 1 :: int) < 0
   \<and> calculate_distances always_ones NoFile three_stations 0 = Inl (ValueError, [])
   \<and> (\<exists>st. calculate_distances always_ones NoFile three_stations (- 1) = Inr st
         \<and> requests_of (events st) =
             [Request [(20, 10), (21, 11), (22, 12)] [(20, 10), (21, 11), (22, 12)]])
   \<and> (\<exists>st. calculate_distances always_ones (Snapshot [] [[0, 3]]) three_stations (- 1) = Inr st
         \<and> requests_of (events st) = [])"
proof -
  have zero: "calculate_distances always_ones NoFile three_stations 0 = Inl (ValueError, [])"
    using C8_batch_size_outcomes [of three_stations always_ones NoFile "- 1"] by simp
  have fresh: "\<exists>st. calculate_distances always_ones NoFile three_stations (- 1) = Inr st
         \<and> requests_of (events st) =
             [Request [(20, 10), (21, 11), (22, 12)] [(20, 10), (21, 11), (22, 12)]]"
    using C8_batch_size_outcomes [of three_stations always_ones NoFile "- 1"]
    by (simp add: three_stations_def already_processed_def)
  have listed: "\<exists>st. calculate_distances always_ones (Snapshot [] [[0, 3]]) three_stations (- 1) = Inr st
         \<and> requests_of (events st) = []"
    using C8_batch_size_outcomes [of three_stations always_ones "Snapshot [] [[0, 3]]" "- 1"]
    by (simp add: three_stations_def already_processed_def np_array_def)
  from zero fresh listed show ?thesis by simp
qed

subsection \<open>A single failed request\<close>

text \<open>
  C7 says that after a single failed request only the block of that request is unset,
  and that unset differs from a distance of zero. The method fills the matrix with
  \<open>np.zeros\<close>. Three stations, batch size 2, a service that answers with the differences
  of the longitudes and whose second request, for \<open>(0,2)\<close> to \<open>(2,3)\<close>, fails: the run
  returns, the other three blocks hold the answers, and the failed block reads
  \<open>Num 0\<close> in rows 0 and 1 of column 2, as the distances of the stations to themselves
  on the diagonal do.
\<close>

theorem C7_failed_block_reads_zero:
  "map_sum id final_result
     (calculate_distances (failing_at 1 lon_gaps) NoFile three_stations 2)
   = Inr (Mat [[Num 0, Num 1, Num 0], [Num 1, Num 0, Num 0], [Num 2, Num 1, Num 0]])"
  by (simp add: run_simps three_stations_def lon_gaps_def failing_at_def)

text \<open>
  The module-level function of the same file fills with \<open>np.nan\<close>, and there a failed
  block stays \<open>NaN\<close>.
\<close>

lemma module_failed_block_is_nan:
  "map_sum id distances
     (module_calculate_distances (failing_at 0 lon_gaps)
        [\<lparr>station_id = 1, lat = 10, lon = 20\<rparr>])
   = Inr (Mat [[NaN]])"
  by (simp add: module_calculate_distances_def py_range_def WINDOW_SIZE_def range_up.simps
        np_full_nan_def window_step_def row_at_def failing_at_def)

text \<open>The class of \<open>src/bike_station_distances.py\<close> also starts from \<open>np.zeros\<close>.\<close>

lemma plain_failed_block_reads_zero:
  "map_sum id distances
     (plain_calculate_distances (failing_at 1 lon_gaps) three_stations 2)
   = Inr (Mat [[Num 0, Num 1, Num 0], [Num 1, Num 0, Num 0], [Num 2, Num 1, Num 0]])"
  by (simp add: plain_simps three_stations_def lon_gaps_def failing_at_def)

end
